theory Spec2Isabelle
  imports Complex_Main "HOL-Library.Sublist"
begin

section \<open>Runtime values of the lesson snippets\<close>

text \<open>
  The lessons are TypeScript snippets; what a snippet evaluates to is decided by the
  JavaScript runtime after the types are erased. A \<open>number\<close> is an IEEE-754 double. It is
  modelled by the value it denotes: not-a-number, the two infinities, or an exact
  rational (both zeros denote \<open>0\<close>). Comparison of doubles is comparison of the values
  they denote. Addition, multiplication and the reading of a numeric string are exact here, where the
  runtime rounds to the nearest double: the two agree whenever the exact result is itself
  a double, as it is for the small integers of the lessons.
\<close>

datatype number = NaN | NegInfinity | Finite rat | PosInfinity

fun number_add :: "number \<Rightarrow> number \<Rightarrow> number" where
  "number_add NaN _ = NaN"
| "number_add _ NaN = NaN"
| "number_add PosInfinity NegInfinity = NaN"
| "number_add NegInfinity PosInfinity = NaN"
| "number_add PosInfinity _ = PosInfinity"
| "number_add NegInfinity _ = NegInfinity"
| "number_add (Finite _) PosInfinity = PosInfinity"
| "number_add (Finite _) NegInfinity = NegInfinity"
| "number_add (Finite x) (Finite y) = Finite (x + y)"

definition number_negate :: "number \<Rightarrow> number" where
  "number_negate x =
     (case x of NaN \<Rightarrow> NaN | NegInfinity \<Rightarrow> PosInfinity
      | Finite q \<Rightarrow> Finite (- q) | PosInfinity \<Rightarrow> NegInfinity)"

definition infinity_times :: "number \<Rightarrow> rat \<Rightarrow> number" where
  \<comment> \<open>an infinity times a finite value: zero gives NaN, otherwise the signs multiply\<close>
  "infinity_times i q =
     (if q = 0 then NaN else if 0 < q then i else number_negate i)"

fun number_multiply :: "number \<Rightarrow> number \<Rightarrow> number" where
  "number_multiply NaN _ = NaN"
| "number_multiply _ NaN = NaN"
| "number_multiply (Finite x) (Finite y) = Finite (x * y)"
| "number_multiply (Finite x) i = infinity_times i x"
| "number_multiply i (Finite y) = infinity_times i y"
| "number_multiply PosInfinity i = i"
| "number_multiply NegInfinity i = number_negate i"

fun number_lessThan :: "number \<Rightarrow> number \<Rightarrow> bool" where
  \<comment> \<open>the \<open><\<close> operator on two numbers; a comparison with NaN is false\<close>
  "number_lessThan NaN _ = False"
| "number_lessThan _ NaN = False"
| "number_lessThan (Finite x) (Finite y) = (x < y)"
| "number_lessThan PosInfinity _ = False"
| "number_lessThan _ NegInfinity = False"
| "number_lessThan NegInfinity _ = True"
| "number_lessThan (Finite _) PosInfinity = True"

text \<open>
  A value whose static type is a union, or whose static type is contradicted at run time
  (the point of two of the lessons), is a tagged runtime value.
\<close>

datatype jsval = Undefined | Bool bool | Num number | Str string

definition typeof :: "jsval \<Rightarrow> string" where
  "typeof v =
     (case v of Undefined \<Rightarrow> ''undefined'' | Bool _ \<Rightarrow> ''boolean''
      | Num _ \<Rightarrow> ''number'' | Str _ \<Rightarrow> ''string'')"


text \<open>
  \<open>Number(value)\<close> and the operand conversion of \<open>*\<close> turn a value into a number. For a
  string this is the runtime's StringToNumber: the string without its leading and trailing
  white space is read by the grammar of numeric string literals, the empty string is
  \<open>0\<close>, and a string the grammar rejects is \<open>NaN\<close>. Characters are code units below 256.
\<close>

definition isStrWhiteSpaceChar :: "char \<Rightarrow> bool" where
  \<comment> \<open>TAB, LF, VT, FF, CR, SP and NBSP\<close>
  "isStrWhiteSpaceChar c = ((of_char c :: nat) \<in> {9, 10, 11, 12, 13, 32, 160})"

definition trim :: "string \<Rightarrow> string" where
  "trim s = rev (dropWhile isStrWhiteSpaceChar (rev (dropWhile isStrWhiteSpaceChar s)))"

definition digit_value :: "char \<Rightarrow> nat option" where
  "digit_value c =
     (let k = (of_char c :: nat)
      in if 48 \<le> k \<and> k \<le> 57 then Some (k - 48)
         else if 97 \<le> k \<and> k \<le> 102 then Some (k - 87)
         else if 65 \<le> k \<and> k \<le> 70 then Some (k - 55)
         else None)"

primrec digits_value :: "nat \<Rightarrow> nat \<Rightarrow> string \<Rightarrow> nat option" where
  \<comment> \<open>the value of a run of digits in the given radix, \<open>None\<close> at a character that is not one\<close>
  "digits_value radix acc [] = Some acc"
| "digits_value radix acc (c # cs) =
     (case digit_value c of
        None \<Rightarrow> None
      | Some d \<Rightarrow> if d < radix then digits_value radix (acc * radix + d) cs else None)"

definition DecimalDigits :: "string \<Rightarrow> nat option" where
  "DecimalDigits s = (if s = [] then None else digits_value 10 0 s)"

definition DecimalDigits_opt :: "string \<Rightarrow> nat option" where
  "DecimalDigits_opt s = (if s = [] then Some 0 else digits_value 10 0 s)"

definition SignedInteger :: "string \<Rightarrow> int option" where
  "SignedInteger s =
     (case s of
        [] \<Rightarrow> None
      | c # cs \<Rightarrow>
          if c = CHR ''+'' then map_option int (DecimalDigits cs)
          else if c = CHR ''-'' then map_option (\<lambda>n. - int n) (DecimalDigits cs)
          else map_option int (DecimalDigits s))"

definition StrMantissa :: "string \<Rightarrow> rat option" where
  \<comment> \<open>\<open>digits\<close>, \<open>digits . digits?\<close> or \<open>. digits\<close>\<close>
  "StrMantissa m =
     (let ip = takeWhile (\<lambda>c. c \<noteq> CHR ''.'') m;
          rest = dropWhile (\<lambda>c. c \<noteq> CHR ''.'') m
      in if rest = [] then map_option of_nat (DecimalDigits ip)
         else let fp = tl rest
              in if ip = [] \<and> fp = [] then None
                 else (case (DecimalDigits_opt ip, DecimalDigits_opt fp) of
                         (Some i, Some f) \<Rightarrow> Some (of_nat i + of_nat f / 10 ^ length fp)
                       | _ \<Rightarrow> None))"

definition scale10 :: "rat \<Rightarrow> int \<Rightarrow> rat" where
  "scale10 q e = (if 0 \<le> e then q * 10 ^ nat e else q / 10 ^ nat (- e))"

definition isExponentIndicator :: "char \<Rightarrow> bool" where
  "isExponentIndicator c = (c = CHR ''e'' \<or> c = CHR ''E'')"

definition StrUnsignedDecimalLiteral :: "string \<Rightarrow> number option" where
  "StrUnsignedDecimalLiteral s =
     (if s = ''Infinity'' then Some PosInfinity
      else let m = takeWhile (\<lambda>c. \<not> isExponentIndicator c) s;
               rest = dropWhile (\<lambda>c. \<not> isExponentIndicator c) s
           in if rest = [] then map_option Finite (StrMantissa m)
              else (case (StrMantissa m, SignedInteger (tl rest)) of
                      (Some q, Some e) \<Rightarrow> Some (Finite (scale10 q e))
                    | _ \<Rightarrow> None))"

definition StrDecimalLiteral :: "string \<Rightarrow> number option" where
  "StrDecimalLiteral s =
     (case s of
        [] \<Rightarrow> None
      | c # cs \<Rightarrow>
          if c = CHR ''+'' then StrUnsignedDecimalLiteral cs
          else if c = CHR ''-'' then map_option number_negate (StrUnsignedDecimalLiteral cs)
          else StrUnsignedDecimalLiteral s)"

definition radix_of_prefix :: "char \<Rightarrow> nat option" where
  "radix_of_prefix c =
     (if c = CHR ''x'' \<or> c = CHR ''X'' then Some 16
      else if c = CHR ''o'' \<or> c = CHR ''O'' then Some 8
      else if c = CHR ''b'' \<or> c = CHR ''B'' then Some 2
      else None)"

definition NonDecimalIntegerLiteral :: "string \<Rightarrow> number option" where
  \<comment> \<open>\<open>0x\<close>, \<open>0o\<close> or \<open>0b\<close> and at least one digit of that radix; no sign\<close>
  "NonDecimalIntegerLiteral s =
     (case s of
        c0 # c1 # ds \<Rightarrow>
          (case radix_of_prefix c1 of
             None \<Rightarrow> None
           | Some radix \<Rightarrow>
               if c0 = CHR ''0'' \<and> ds \<noteq> []
               then map_option (\<lambda>n. Finite (of_nat n)) (digits_value radix 0 ds)
               else None)
      | _ \<Rightarrow> None)"

definition StringToNumber :: "string \<Rightarrow> number" where
  "StringToNumber s =
     (let t = trim s
      in if t = [] then Finite 0
         else (case NonDecimalIntegerLiteral t of
                 Some n \<Rightarrow> n
               | None \<Rightarrow> (case StrDecimalLiteral t of Some n \<Rightarrow> n | None \<Rightarrow> NaN)))"

definition ToNumber :: "jsval \<Rightarrow> number" where
  "ToNumber v =
     (case v of Undefined \<Rightarrow> NaN | Bool b \<Rightarrow> Finite (if b then 1 else 0)
      | Num n \<Rightarrow> n | Str s \<Rightarrow> StringToNumber s)"

definition Number :: "jsval \<Rightarrow> number" where
  "Number v = ToNumber v"

definition js_times :: "jsval \<Rightarrow> jsval \<Rightarrow> jsval" where
  \<comment> \<open>the \<open>*\<close> operator: both operands are converted, then multiplied\<close>
  "js_times a b = Num (number_multiply (ToNumber a) (ToNumber b))"


section \<open>typescript-basics/1-basic-types.ts\<close>

text \<open>
  \<^verbatim>\<open>let sum: number = 1 + 1; sum;\<close>
\<close>

definition sum_basic :: number where
  "sum_basic = (let sum = number_add (Finite 1) (Finite 1) in sum)"


section \<open>advanced-typescript/10-function-overloads.ts\<close>

text \<open>
  \<^verbatim>\<open>function pluralize(s: string | undefined): string | undefined {
    return s === undefined ? undefined : s + 's';
  }\<close>
  The union \<open>string | undefined\<close> is \<open>string option\<close>, with \<open>None\<close> for \<open>undefined\<close>.
\<close>

definition pluralize :: "string option \<Rightarrow> string option" where
  "pluralize s = (case s of None \<Rightarrow> None | Some str \<Rightarrow> Some (str @ ''s''))"

text \<open>
  \<^verbatim>\<open>const cats: string = pluralize('cat');
  const dogs: string = pluralize('dog');
  const anUndefined: undefined = pluralize(undefined);
  [cats, dogs, anUndefined];\<close>
\<close>

definition pluralize_exercise :: "string option list" where
  "pluralize_exercise =
     (let cats = pluralize (Some ''cat'');
          dogs = pluralize (Some ''dog'');
          anUndefined = pluralize None
      in [cats, dogs, anUndefined])"


text \<open>
  The overloaded \<open>double\<close> whose string branch no longer calls \<open>.toString()\<close>:
  \<^verbatim>\<open>function double(n: number): number;
  function double(s: string): string;
  function double(n: number | string): number | string {
    if (typeof n === 'number') {
      return n * 2;
    } else {
      const doubled = Number(n) * 2;
      return doubled;
    }
  }\<close>
  One body serves both overloads, so the model is the body, on runtime values.
\<close>

definition double_without_toString :: "jsval \<Rightarrow> jsval" where
  "double_without_toString n =
     (if typeof n = ''number'' then js_times n (Num (Finite 2))
      else (let doubled = js_times (Num (Number n)) (Num (Finite 2)) in doubled))"

text \<open>
  \<^verbatim>\<open>// This is supposed to be a string, but it ends up holding a number!
  const s: string = double('6');
  s;\<close>
\<close>

definition double_without_toString_snippet :: jsval where
  "double_without_toString_snippet = (let s = double_without_toString (Str ''6'') in s)"


section \<open>advanced-typescript/3-generic-constraints.ts\<close>

text \<open>
  \<^verbatim>\<open>type User = { name: string; age: number; };
  function filterBelowAge(users: User[], limit: number): User[] {
    return users.filter((user) => user.age < limit);
  }\<close>
\<close>

record User =
  name :: string
  age :: number

definition filterBelowAge :: "User list \<Rightarrow> number \<Rightarrow> User list" where
  "filterBelowAge users limit = filter (\<lambda>user. number_lessThan (age user) limit) users"

text \<open>
  \<^verbatim>\<open>const users = [{ name: "Amir", age: 36 }, { name: "Gabriel", age: 7 }];
  const youngUsers = filterBelowAge(users, 10);
  youngUsers.map((user) => user.name);\<close>
\<close>

definition users :: "User list" where
  "users = [\<lparr>name = ''Amir'', age = Finite 36\<rparr>, \<lparr>name = ''Gabriel'', age = Finite 7\<rparr>]"

definition youngUsers_names :: "string list" where
  "youngUsers_names = (let youngUsers = filterBelowAge users (Finite 10) in map name youngUsers)"

text \<open>
  The hybrid type \<open>Path\<close> is a function that also carries a property: a record of the call
  signature and the property.
  \<^verbatim>\<open>type Path = { (suffix: string): string; prefix: string };
  function buildPath(prefix: string): Path {
    function path(suffix: string) { return `/${prefix}/${suffix}`; }
    path.prefix = prefix;
    return path;
  }\<close>
\<close>

record Path =
  call :: "string \<Rightarrow> string"
  prefix :: string

definition buildPath :: "string \<Rightarrow> Path" where
  "buildPath pre =
     (let path = (\<lambda>suf. ''/'' @ pre @ ''/'' @ suf)
      in \<lparr>call = path, prefix = pre\<rparr>)"

text \<open>
  \<^verbatim>\<open>const path: Path = buildPath('courses');
  [path.prefix, path('regexes')];\<close>
\<close>

definition courses_path :: "string list" where
  "courses_path = (let path = buildPath ''courses'' in [prefix path, call path ''regexes''])"


section \<open>Type predicates: the \<open>isAddress\<close> lesson\<close>

text \<open>
  \<^verbatim>\<open>type Address = {postalCode: string, country: string};
  type User = {name: string, address: Address | undefined};
  function isAddress(address: Address | undefined): address is Address {
    return address !== undefined;
  }\<close>
  The union \<open>Address | undefined\<close> is \<open>Address option\<close>.
\<close>

record Address =
  postalCode :: string
  country :: string

record UserWithAddress =
  name :: string
  address :: "Address option"

definition isAddress :: "Address option \<Rightarrow> bool" where
  "isAddress a = (a \<noteq> None)"

text \<open>
  \<^verbatim>\<open>const amir: User = {
    name: 'Amir',
    address: {postalCode: '75010', country: 'France'}
  };
  let address: Address;
  if (isAddress(amir.address)) {
    address = amir.address;
  } else {
    address = {postalCode: 'unknown', country: 'unknown'};
  }
  address.postalCode;\<close>
  The conditional is modelled for any user in the place of \<open>amir\<close>. The variable
  \<open>address\<close> holds what the taken branch assigns, a runtime value that may be
  \<open>undefined\<close>; reading a property of \<open>undefined\<close> throws a TypeError.
\<close>

datatype runtime_error = TypeError

definition amir :: UserWithAddress where
  "amir = \<lparr>name = ''Amir'', address = Some \<lparr>postalCode = ''75010'', country = ''France''\<rparr>\<rparr>"

definition guarded_address :: "UserWithAddress \<Rightarrow> Address option" where
  "guarded_address u =
     (if isAddress (address u) then address u
      else Some \<lparr>postalCode = ''unknown'', country = ''unknown''\<rparr>)"

definition address_postalCode :: "UserWithAddress \<Rightarrow> runtime_error + string" where
  "address_postalCode u =
     (case guarded_address u of None \<Rightarrow> Inl TypeError | Some a \<Rightarrow> Inr (postalCode a))"


section \<open>Type predicates: the \<open>isNumber\<close> and \<open>isString\<close> lesson\<close>

text \<open>
  \<^verbatim>\<open>/* This function has a bug! TypeScript can't tell us when our type
   * predicate's body is wrong. */
  function isNumber(n: number | string): n is number {
    return typeof n === 'string';
  }
  const n: string = 'oh no';
  const n2: number = isNumber(n) ? n : 0;
  n2;\<close>
\<close>

definition isNumber :: "jsval \<Rightarrow> bool" where
  "isNumber n = (typeof n = ''string'')"

definition isNumber_snippet :: jsval where
  "isNumber_snippet =
     (let n = Str ''oh no'';
          n2 = (if isNumber n then n else Num (Finite 0))
      in n2)"

text \<open>
  \<^verbatim>\<open>function isString(s: string | undefined): s is string {
    return typeof s === 'string';
  }
  const s1: undefined = undefined;
  const s2: string = isString(s1) ? s1 : 'not a string';
  s2;\<close>
\<close>

definition isString :: "jsval \<Rightarrow> bool" where
  "isString s = (typeof s = ''string'')"

definition isString_exercise :: jsval where
  "isString_exercise =
     (let s1 = Undefined;
          s2 = (if isString s1 then s1 else Str ''not a string'')
      in s2)"


section \<open>Results of the snippets\<close>

lemma count_list_filter_if:
  "count_list (filter P xs) x = (if P x then count_list xs x else 0)"
  by (induction xs) auto

text \<open>
  C4: evaluating \<^verbatim>\<open>let sum: number = 1 + 1; sum;\<close> yields exactly the literal 2, the
  snippet's declared Result.
\<close>

theorem sum_basic_is_2: "sum_basic = Finite 2"
  by (simp add: sum_basic_def)

text \<open>
  C1: for every string \<open>s\<close>, \<open>pluralize(s)\<close> is \<open>s\<close> with \<open>'s'\<close> appended, and
  \<open>pluralize(undefined)\<close> is \<open>undefined\<close>; the exercise's list evaluates to
  \<open>['cats', 'dogs', undefined]\<close>, its stated Goal.
\<close>

theorem pluralize_goal:
  "pluralize (Some s) = Some (s @ ''s'') \<and>
   pluralize None = None \<and>
   pluralize_exercise = [Some ''cats'', Some ''dogs'', None]"
  by (simp add: pluralize_def pluralize_exercise_def)

text \<open>
  C8: for every prefix and every suffix, the function \<open>p\<close> returned by \<open>buildPath(prefix)\<close>
  has \<open>p.prefix = prefix\<close> and \<open>p(suffix) = '/' + prefix + '/' + suffix\<close>; for
  \<open>buildPath('courses')\<close> and the suffix \<open>'regexes'\<close> the snippet gives
  \<open>['courses', '/courses/regexes']\<close>.
\<close>

theorem buildPath_prefix_and_call:
  "prefix (buildPath pre) = pre \<and>
   call (buildPath pre) suf = ''/'' @ pre @ ''/'' @ suf \<and>
   courses_path = [''courses'', ''/courses/regexes'']"
  by (simp add: buildPath_def courses_path_def)

text \<open>
  C2: with the body that omits \<open>.toString()\<close>, the snippet
  \<^verbatim>\<open>const s: string = double('6'); s;\<close> evaluates to the number 12, its declared
  Result, although \<open>s\<close> is declared a string.
\<close>

theorem double_without_toString_is_number_12:
  "double_without_toString_snippet = Num (Finite 12)"
  by (simp add: double_without_toString_snippet_def double_without_toString_def typeof_def
      js_times_def Number_def ToNumber_def StringToNumber_def trim_def isStrWhiteSpaceChar_def
      NonDecimalIntegerLiteral_def radix_of_prefix_def StrDecimalLiteral_def
      StrUnsignedDecimalLiteral_def isExponentIndicator_def StrMantissa_def DecimalDigits_def
      digit_value_def)

text \<open>
  C3: the intentionally wrong predicate \<open>isNumber\<close> is true of \<open>'oh no'\<close>, so the snippet
  \<^verbatim>\<open>const n2: number = isNumber(n) ? n : 0; n2;\<close> with \<open>n = 'oh no'\<close> evaluates to
  the string \<open>'oh no'\<close>, its declared Result.
\<close>

theorem isNumber_snippet_is_oh_no:
  "isNumber (Str ''oh no'') = True \<and> isNumber_snippet = Str ''oh no''"
  by (simp add: isNumber_def isNumber_snippet_def typeof_def)

text \<open>
  C7: in the \<open>isString\<close> exercise \<open>s1\<close> is \<open>undefined\<close>, \<open>isString(s1)\<close> is false, and
  \<^verbatim>\<open>const s2: string = isString(s1) ? s1 : 'not a string'; s2;\<close> evaluates to
  \<open>'not a string'\<close>, the exercise's stated Goal.
\<close>

theorem isString_exercise_goal:
  "isString Undefined = False \<and> isString_exercise = Str ''not a string''"
  by (simp add: isString_def isString_exercise_def typeof_def)

text \<open>
  C10: \<open>isAddress\<close> is true of its argument if and only if the argument is not
  \<open>undefined\<close>. So in the guarded conditional the then-branch is taken exactly when the
  address is present: a present address is the one read, an absent one is replaced by
  the \<open>'unknown'\<close> address of the else-branch. The documented evaluation yields
  \<open>'75010'\<close>.
\<close>

theorem isAddress_guard:
  "isAddress a = (a \<noteq> None) \<and>
   guarded_address (u\<lparr>address := Some x\<rparr>) = Some x \<and>
   address_postalCode (u\<lparr>address := Some x\<rparr>) = Inr (postalCode x) \<and>
   guarded_address (u\<lparr>address := None\<rparr>) = Some \<lparr>postalCode = ''unknown'', country = ''unknown''\<rparr> \<and>
   address_postalCode (u\<lparr>address := None\<rparr>) = Inr ''unknown'' \<and>
   address_postalCode amir = Inr ''75010''"
  by (simp add: isAddress_def guarded_address_def address_postalCode_def amir_def)

text \<open>
  C6: for every list of users and every limit, \<open>filterBelowAge\<close> returns exactly the input
  elements whose age is strictly less than the limit, in their original order: the
  result is a subsequence of the input, its elements are the input elements below the
  limit, and each of them occurs as often as in the input. The comparison is the
  runtime's \<open><\<close> on numbers, so a user whose age is NaN is never below a limit. For the
  documented users and the limit 10, mapping \<open>name\<close> over the result yields
  \<open>['Gabriel']\<close>.
\<close>

theorem filterBelowAge_exactly_below_limit:
  "subseq (filterBelowAge us limit) us \<and>
   set (filterBelowAge us limit) = {u \<in> set us. number_lessThan (age u) limit} \<and>
   (\<forall>u. count_list (filterBelowAge us limit) u =
        (if number_lessThan (age u) limit then count_list us u else 0)) \<and>
   youngUsers_names = [''Gabriel'']"
proof -
  have order: "subseq (filterBelowAge us limit) us"
    unfolding filterBelowAge_def by (rule subseq_filter_left)
  have members: "set (filterBelowAge us limit) = {u \<in> set us. number_lessThan (age u) limit}"
    unfolding filterBelowAge_def by (rule set_filter)
  have counts: "\<forall>u. count_list (filterBelowAge us limit) u =
        (if number_lessThan (age u) limit then count_list us u else 0)"
    unfolding filterBelowAge_def by (simp add: count_list_filter_if)
  have documented: "youngUsers_names = [''Gabriel'']"
    by (simp add: youngUsers_names_def users_def filterBelowAge_def)
  from order members counts documented show ?thesis by blast
qed

end
